theory Spec2Isabelle
  imports Main "HOL-Library.Sublist"
begin

section \<open>File utilities: categories and extensions\<close>

text \<open>
  The module \<^verbatim>\<open>file-utils.ts\<close> maps a MIME content type and an optional file name to
  a file category and to a file extension. Its three lookup tables are object literals;
  they are kept here as association lists in the order of the source (no key occurs
  twice in any of them).

  Strings are lists of 8-bit characters, read as the code units U+0000 to U+00FF.
  The seven values of \<^verbatim>\<open>FileCategory\<close> carry the prefix \<open>C\<close> (\<open>CImage\<close> is
  \<^verbatim>\<open>"image"\<close>, and so on).
\<close>

datatype FileCategory = CImage | CAudio | CVideo | CDocument | CArchive | CCode | COther

definition MIME_TO_EXTENSION :: "(string \<times> string) list" where
  "MIME_TO_EXTENSION = [
    (''image/jpeg'', ''.jpg''),
    (''image/png'', ''.png''),
    (''image/gif'', ''.gif''),
    (''image/webp'', ''.webp''),
    (''image/bmp'', ''.bmp''),
    (''audio/mpeg'', ''.mp3''),
    (''audio/wav'', ''.wav''),
    (''audio/ogg'', ''.ogg''),
    (''audio/amr'', ''.amr''),
    (''audio/x-m4a'', ''.m4a''),
    (''video/mp4'', ''.mp4''),
    (''video/quicktime'', ''.mov''),
    (''video/x-msvideo'', ''.avi''),
    (''video/webm'', ''.webm''),
    (''application/pdf'', ''.pdf''),
    (''application/msword'', ''.doc''),
    (''application/vnd.openxmlformats-officedocument.wordprocessingml.document'', ''.docx''),
    (''application/vnd.ms-excel'', ''.xls''),
    (''application/vnd.openxmlformats-officedocument.spreadsheetml.sheet'', ''.xlsx''),
    (''application/vnd.ms-powerpoint'', ''.ppt''),
    (''application/vnd.openxmlformats-officedocument.presentationml.presentation'', ''.pptx''),
    (''application/rtf'', ''.rtf''),
    (''application/vnd.oasis.opendocument.text'', ''.odt''),
    (''application/vnd.oasis.opendocument.spreadsheet'', ''.ods''),
    (''text/plain'', ''.txt''),
    (''text/markdown'', ''.md''),
    (''text/csv'', ''.csv''),
    (''application/zip'', ''.zip''),
    (''application/x-rar-compressed'', ''.rar''),
    (''application/vnd.rar'', ''.rar''),
    (''application/x-7z-compressed'', ''.7z''),
    (''application/x-tar'', ''.tar''),
    (''application/gzip'', ''.gz''),
    (''application/x-gzip'', ''.gz''),
    (''application/x-bzip2'', ''.bz2''),
    (''application/json'', ''.json''),
    (''application/xml'', ''.xml''),
    (''text/xml'', ''.xml''),
    (''text/html'', ''.html''),
    (''text/css'', ''.css''),
    (''text/javascript'', ''.js''),
    (''application/javascript'', ''.js''),
    (''text/x-python'', ''.py''),
    (''text/x-java-source'', ''.java''),
    (''text/x-c'', ''.c''),
    (''text/x-yaml'', ''.yaml''),
    (''application/x-yaml'', ''.yaml'')]"

definition CATEGORY_BY_MIME :: "(string \<times> FileCategory) list" where
  "CATEGORY_BY_MIME = [
    (''application/pdf'', CDocument),
    (''application/msword'', CDocument),
    (''application/vnd.openxmlformats-officedocument.wordprocessingml.document'', CDocument),
    (''application/vnd.ms-excel'', CDocument),
    (''application/vnd.openxmlformats-officedocument.spreadsheetml.sheet'', CDocument),
    (''application/vnd.ms-powerpoint'', CDocument),
    (''application/vnd.openxmlformats-officedocument.presentationml.presentation'', CDocument),
    (''application/rtf'', CDocument),
    (''application/vnd.oasis.opendocument.text'', CDocument),
    (''application/vnd.oasis.opendocument.spreadsheet'', CDocument),
    (''text/plain'', CDocument),
    (''text/markdown'', CDocument),
    (''text/csv'', CDocument),
    (''application/zip'', CArchive),
    (''application/x-rar-compressed'', CArchive),
    (''application/vnd.rar'', CArchive),
    (''application/x-7z-compressed'', CArchive),
    (''application/x-tar'', CArchive),
    (''application/gzip'', CArchive),
    (''application/x-gzip'', CArchive),
    (''application/x-bzip2'', CArchive),
    (''application/json'', CCode),
    (''application/xml'', CCode),
    (''text/xml'', CCode),
    (''text/html'', CCode),
    (''text/css'', CCode),
    (''text/javascript'', CCode),
    (''application/javascript'', CCode),
    (''text/x-python'', CCode),
    (''text/x-java-source'', CCode),
    (''text/x-c'', CCode),
    (''text/x-yaml'', CCode),
    (''application/x-yaml'', CCode)]"

definition CATEGORY_BY_EXTENSION :: "(string \<times> FileCategory) list" where
  "CATEGORY_BY_EXTENSION = [
    (''.jpg'', CImage), (''.jpeg'', CImage), (''.png'', CImage), (''.gif'', CImage),
    (''.webp'', CImage), (''.bmp'', CImage),
    (''.mp3'', CAudio), (''.wav'', CAudio), (''.ogg'', CAudio), (''.m4a'', CAudio),
    (''.amr'', CAudio),
    (''.mp4'', CVideo), (''.mov'', CVideo), (''.avi'', CVideo), (''.mkv'', CVideo),
    (''.webm'', CVideo),
    (''.pdf'', CDocument), (''.doc'', CDocument), (''.docx'', CDocument), (''.txt'', CDocument),
    (''.md'', CDocument), (''.rtf'', CDocument), (''.odt'', CDocument), (''.xls'', CDocument),
    (''.xlsx'', CDocument), (''.csv'', CDocument), (''.ods'', CDocument), (''.ppt'', CDocument),
    (''.pptx'', CDocument),
    (''.zip'', CArchive), (''.rar'', CArchive), (''.7z'', CArchive), (''.tar'', CArchive),
    (''.gz'', CArchive), (''.bz2'', CArchive),
    (''.py'', CCode), (''.js'', CCode), (''.ts'', CCode), (''.jsx'', CCode), (''.tsx'', CCode),
    (''.java'', CCode), (''.cpp'', CCode), (''.c'', CCode), (''.go'', CCode), (''.rs'', CCode),
    (''.json'', CCode), (''.xml'', CCode), (''.yaml'', CCode), (''.yml'', CCode),
    (''.html'', CCode), (''.css'', CCode)]"

subsection \<open>Property lookup on an object literal\<close>

text \<open>
  The tables are created by object literals, so their prototype is
  \<^verbatim>\<open>Object.prototype\<close>. The operator \<^verbatim>\<open>k in table\<close> holds for the own keys of
  the table and for the property names of \<^verbatim>\<open>Object.prototype\<close>, and
  \<^verbatim>\<open>table[k]\<close> reads an own property first, an inherited one next, and is
  \<^verbatim>\<open>undefined\<close> otherwise. A value that the functions below return is therefore
  either a value of the declared type, or a member of \<^verbatim>\<open>Object.prototype\<close>
  (\<open>Inherited k\<close>: the member named \<open>k\<close>, a function or an object), or
  \<^verbatim>\<open>undefined\<close>.
\<close>

definition Object_prototype_keys :: "string list" where
  "Object_prototype_keys =
     [''constructor'', ''__defineGetter__'', ''__defineSetter__'', ''hasOwnProperty'',
      ''__lookupGetter__'', ''__lookupSetter__'', ''isPrototypeOf'',
      ''propertyIsEnumerable'', ''toString'', ''valueOf'', ''__proto__'',
      ''toLocaleString'']"

datatype 'a js = Value 'a | Inherited string | Undefined

definition js_in :: "string \<Rightarrow> (string \<times> 'a) list \<Rightarrow> bool" where
  "js_in k table = (k \<in> fst ` set table \<or> k \<in> set Object_prototype_keys)"

definition js_get :: "(string \<times> 'a) list \<Rightarrow> string \<Rightarrow> 'a js" where
  "js_get table k =
     (case map_of table k of
        Some v \<Rightarrow> Value v
      | None \<Rightarrow> if k \<in> set Object_prototype_keys then Inherited k else Undefined)"

subsection \<open>String primitives\<close>

text \<open>
  \<^verbatim>\<open>String.prototype.trim\<close> removes white space and line terminators at both ends;
  among the code units below U+0100 these are U+0009 to U+000D, U+0020 and U+00A0.
  \<^verbatim>\<open>toLowerCase\<close> maps A to Z, and U+00C0 to U+00DE except U+00D7, 32 code units
  up. \<open>splitFirst sep s\<close> is \<^verbatim>\<open>s.split(sep)[0]\<close>; \<open>lastIndexOf\<close> returns
  \<open>-1\<close> when the character does not occur; \<open>slice s start\<close> is
  \<^verbatim>\<open>s.slice(start)\<close>, a negative start counting from the end.
\<close>

definition isWhiteSpace :: "char \<Rightarrow> bool" where
  "isWhiteSpace c = (of_char c \<in> {9, 10, 11, 12, 13, 32, 160 :: nat})"

definition trim :: "string \<Rightarrow> string" where
  "trim s = rev (dropWhile isWhiteSpace (rev (dropWhile isWhiteSpace s)))"

definition toLowerChar :: "char \<Rightarrow> char" where
  "toLowerChar c =
     (let n = of_char c :: nat
      in if (65 \<le> n \<and> n \<le> 90) \<or> (192 \<le> n \<and> n \<le> 222 \<and> n \<noteq> 215)
         then char_of (n + 32) else c)"

definition toLowerCase :: "string \<Rightarrow> string" where
  "toLowerCase s = map toLowerChar s"

definition splitFirst :: "char \<Rightarrow> string \<Rightarrow> string" where
  "splitFirst sep s = takeWhile (\<lambda>c. c \<noteq> sep) s"

definition lastIndexOf :: "string \<Rightarrow> char \<Rightarrow> int" where
  "lastIndexOf s c =
     (if c \<in> set s
      then int (length s) - 1 - int (length (takeWhile (\<lambda>x. x \<noteq> c) (rev s)))
      else - 1)"

definition slice :: "string \<Rightarrow> int \<Rightarrow> string" where
  "slice s start =
     (if start < 0 then drop (nat (int (length s) + start)) s else drop (nat start) s)"

subsection \<open>extractExtension, resolveFileCategory, resolveExtension\<close>

text \<open>
  An optional \<^verbatim>\<open>fileName?: string\<close> is a \<open>string option\<close>; the test
  \<^verbatim>\<open>if (fileName)\<close> holds for a supplied, non-empty name, and \<^verbatim>\<open>if (ext)\<close>
  for a non-empty extension. In \<open>resolveExtension\<close> the early \<^verbatim>\<open>return ext\<close> is
  the \<open>Some\<close> case of \<open>fromName\<close>.
\<close>

definition extractExtension :: "string \<Rightarrow> string" where
  "extractExtension fileName =
     (let lastDot = lastIndexOf fileName (CHR ''.'')
      in if lastDot = - 1 \<or> lastDot = int (length fileName) - 1 then ''''
         else toLowerCase (slice fileName lastDot))"

definition resolveFileCategory :: "string \<Rightarrow> string option \<Rightarrow> FileCategory js" where
  "resolveFileCategory contentType fileName =
     (let mimeType = toLowerCase (trim (splitFirst (CHR '';'') contentType))
      in if prefix ''image/'' mimeType then Value CImage
         else if prefix ''audio/'' mimeType then Value CAudio
         else if prefix ''video/'' mimeType then Value CVideo
         else if js_in mimeType CATEGORY_BY_MIME then js_get CATEGORY_BY_MIME mimeType
         else
           (case fileName of
              None \<Rightarrow> Value COther
            | Some name \<Rightarrow>
                if name \<noteq> [] then
                  (let ext = extractExtension name
                   in if ext \<noteq> [] \<and> js_in ext CATEGORY_BY_EXTENSION
                      then js_get CATEGORY_BY_EXTENSION ext
                      else Value COther)
                else Value COther))"

definition resolveExtension :: "string \<Rightarrow> string option \<Rightarrow> string js" where
  "resolveExtension contentType fileName =
     (let fromName =
            (case fileName of
               None \<Rightarrow> None
             | Some name \<Rightarrow>
                 if name \<noteq> [] then
                   (let ext = extractExtension name in if ext \<noteq> [] then Some ext else None)
                 else None)
      in case fromName of
           Some ext \<Rightarrow> Value ext
         | None \<Rightarrow>
             (let mimeType = toLowerCase (trim (splitFirst (CHR '';'') contentType))
              in if js_in mimeType MIME_TO_EXTENSION then js_get MIME_TO_EXTENSION mimeType
                 else Value ''.bin''))"

subsection \<open>The resolution orders, as the specification words them\<close>

text \<open>
  The specification describes the extension of a name as the substring from the last
  \<open>.\<close> to the end of the name, lower-cased, a name with no \<open>.\<close> or with a
  trailing \<open>.\<close> having none (\<open>spec_ownExtension\<close>); the normalization of a
  content type as truncation at the first \<open>;\<close> followed by lower-casing
  (\<open>spec_normalize\<close>); the category as the first of prefix match, content-type
  table, extension table and \<open>other\<close> (\<open>spec_resolveFileCategory\<close>, with the
  normalization as a parameter); and the extension as the first of the name's own
  extension, content-type table and \<open>.bin\<close> (\<open>spec_resolveExtension\<close>).
  \<open>normalize_trimmed\<close> is the normalization with the trimming step that the source
  performs between the two.
\<close>

fun afterLastDot :: "string \<Rightarrow> string option" where
  "afterLastDot [] = None"
| "afterLastDot (c # cs) =
     (case afterLastDot cs of
        Some t \<Rightarrow> Some t
      | None \<Rightarrow> if c = CHR ''.'' then Some cs else None)"

definition spec_ownExtension :: "string \<Rightarrow> string option" where
  "spec_ownExtension name =
     (case afterLastDot name of
        None \<Rightarrow> None
      | Some t \<Rightarrow> if t = [] then None else Some (toLowerCase (CHR ''.'' # t)))"

definition spec_normalize :: "string \<Rightarrow> string" where
  "spec_normalize ct = toLowerCase (splitFirst (CHR '';'') ct)"

definition normalize_trimmed :: "string \<Rightarrow> string" where
  "normalize_trimmed ct = toLowerCase (trim (splitFirst (CHR '';'') ct))"

definition spec_resolveFileCategory :: "(string \<Rightarrow> string) \<Rightarrow> string \<Rightarrow> string option \<Rightarrow> FileCategory" where
  "spec_resolveFileCategory normalise ct fn =
     (let m = normalise ct
      in if prefix ''image/'' m then CImage
         else if prefix ''audio/'' m then CAudio
         else if prefix ''video/'' m then CVideo
         else
           (case map_of CATEGORY_BY_MIME m of
              Some c \<Rightarrow> c
            | None \<Rightarrow>
                (case fn of
                   None \<Rightarrow> COther
                 | Some name \<Rightarrow>
                     (case spec_ownExtension name of
                        None \<Rightarrow> COther
                      | Some e \<Rightarrow>
                          (case map_of CATEGORY_BY_EXTENSION e of
                             Some c \<Rightarrow> c
                           | None \<Rightarrow> COther)))))"

definition spec_resolveExtension :: "string \<Rightarrow> string option \<Rightarrow> string" where
  "spec_resolveExtension ct fn =
     (case (case fn of None \<Rightarrow> None | Some name \<Rightarrow> spec_ownExtension name) of
        Some e \<Rightarrow> e
      | None \<Rightarrow>
          (case map_of MIME_TO_EXTENSION (normalize_trimmed ct) of
             Some e \<Rightarrow> e
           | None \<Rightarrow> ''.bin''))"


section \<open>Inbound context assembly (DingTalk media receive)\<close>

text \<open>
  The helper \<^verbatim>\<open>assignMediaFieldsToContext\<close> of
  \<^verbatim>\<open>inbound-context.property.test.ts\<close> clones the context object it is given
  (\<^verbatim>\<open>{ ...inboundCtx }\<close>) and then assigns properties of the clone. Objects are
  modelled as finite maps from property names to values, living in a store of objects
  addressed by references, so that the clone and the original are two cells of the
  store and every assignment names the cell it writes.
\<close>

subsection \<open>Values, objects and the object store\<close>

datatype val = Str string | Num int | Bool bool | StrArray "string list"

type_synonym obj = "string \<rightharpoonup> val"

type_synonym ref = nat

type_synonym heap = "obj list"

text \<open>\<^verbatim>\<open>{ ...o }\<close>: a new object holding the own properties of \<open>o\<close>.\<close>

definition spread :: "heap \<Rightarrow> ref \<Rightarrow> ref \<times> heap" where
  "spread h r = (length h, h @ [h ! r])"

text \<open>\<^verbatim>\<open>o.k = v\<close>\<close>

definition setProp :: "heap \<Rightarrow> ref \<Rightarrow> string \<Rightarrow> val \<Rightarrow> heap" where
  "setProp h r k v = h[r := (h ! r)(k \<mapsto> v)]"

subsection \<open>Input shapes\<close>

text \<open>
  \<^verbatim>\<open>DownloadedFile\<close> and \<^verbatim>\<open>ExtractedFileInfo\<close> as the tests build them. The
  fields \<^verbatim>\<open>size\<close> and \<^verbatim>\<open>fileName\<close> of \<^verbatim>\<open>DownloadedFile\<close> are
  \<open>size_df\<close> and \<open>fileName_df\<close> here; an optional field is an \<open>option\<close>, a
  nullable argument likewise.
\<close>

record DownloadedFile =
  path :: string
  contentType :: string
  size_df :: int
  fileName_df :: "string option"

datatype MediaMsgType = Picture | Video | Audio | File

record ExtractedFileInfo =
  downloadCode :: string
  msgType :: MediaMsgType
  fileName :: "string option"
  fileSize :: "int option"
  duration :: "int option"
  recognition :: "string option"

text \<open>JavaScript truthiness of a \<^verbatim>\<open>string | null | undefined\<close> value.\<close>

definition truthy :: "string option \<Rightarrow> bool" where
  "truthy s = (case s of None \<Rightarrow> False | Some t \<Rightarrow> t \<noteq> [])"

subsection \<open>assignMediaFieldsToContext\<close>

text \<open>The three body assignments that both branches make under \<^verbatim>\<open>if (mediaBody)\<close>.\<close>

definition assignBody :: "heap \<Rightarrow> ref \<Rightarrow> string option \<Rightarrow> heap" where
  "assignBody h ctx mediaBody =
     (if truthy mediaBody then
        (let h = setProp h ctx ''Body'' (Str (the mediaBody));
             h = setProp h ctx ''RawBody'' (Str (the mediaBody));
             h = setProp h ctx ''CommandBody'' (Str (the mediaBody))
         in h)
      else h)"

text \<open>The block under \<^verbatim>\<open>if (extractedFileInfo?.msgType === "file")\<close>.\<close>

definition assignFileFields :: "heap \<Rightarrow> ref \<Rightarrow> ExtractedFileInfo option \<Rightarrow> heap" where
  "assignFileFields h ctx extractedFileInfo =
     (case extractedFileInfo of
        None \<Rightarrow> h
      | Some info \<Rightarrow>
          if msgType info = File then
            (let h = (if truthy (fileName info)
                      then setProp h ctx ''FileName'' (Str (the (fileName info))) else h);
                 h = (case fileSize info of
                        None \<Rightarrow> h
                      | Some n \<Rightarrow> setProp h ctx ''FileSize'' (Num n))
             in h)
          else h)"

text \<open>
  The statement under
  \<^verbatim>\<open>if (extractedFileInfo?.msgType === "audio" && extractedFileInfo.recognition)\<close>.
\<close>

definition assignTranscript :: "heap \<Rightarrow> ref \<Rightarrow> ExtractedFileInfo option \<Rightarrow> heap" where
  "assignTranscript h ctx extractedFileInfo =
     (case extractedFileInfo of
        None \<Rightarrow> h
      | Some info \<Rightarrow>
          if msgType info = Audio \<and> truthy (recognition info)
          then setProp h ctx ''Transcript'' (Str (the (recognition info)))
          else h)"

definition assignMediaFieldsToContext ::
  "heap \<Rightarrow> ref \<Rightarrow> DownloadedFile option \<Rightarrow> ExtractedFileInfo option \<Rightarrow>
     DownloadedFile list \<Rightarrow> string option \<Rightarrow> ref \<times> heap" where
  "assignMediaFieldsToContext h0 inboundCtx downloadedMedia extractedFileInfo
       downloadedRichTextImages mediaBody =
     (let (ctx, h) = spread h0 inboundCtx;
          h = (case downloadedMedia of
                 None \<Rightarrow> h
               | Some dm \<Rightarrow>
                   (let h = setProp h ctx ''MediaPath'' (Str (path dm));
                        h = setProp h ctx ''MediaType'' (Str (contentType dm));
                        h = assignBody h ctx mediaBody;
                        h = assignFileFields h ctx extractedFileInfo;
                        h = assignTranscript h ctx extractedFileInfo
                    in h));
          h = (if length downloadedRichTextImages > 0 then
                 (let h = setProp h ctx ''MediaPaths''
                            (StrArray (map path downloadedRichTextImages));
                      h = setProp h ctx ''MediaTypes''
                            (StrArray (map contentType downloadedRichTextImages));
                      h = assignBody h ctx mediaBody
                  in h)
               else h)
      in (ctx, h))"

text \<open>The object the call returns, and the object that was passed as \<^verbatim>\<open>base\<close>.\<close>

definition resultCtx ::
  "heap \<Rightarrow> ref \<Rightarrow> DownloadedFile option \<Rightarrow> ExtractedFileInfo option \<Rightarrow>
     DownloadedFile list \<Rightarrow> string option \<Rightarrow> obj" where
  "resultCtx h base dm info imgs mb =
     (case assignMediaFieldsToContext h base dm info imgs mb of (r, h') \<Rightarrow> h' ! r)"

section \<open>Properties of the file utilities\<close>

lemma lastIndexOf_absent: "c \<notin> set s \<Longrightarrow> lastIndexOf s c = - 1"
  by (simp add: lastIndexOf_def)

lemma lastIndexOf_last_occurrence:
  assumes "c \<notin> set t"
  shows "lastIndexOf (pre @ c # t) c = int (length pre)"
proof -
  have "takeWhile (\<lambda>x. x \<noteq> c) (rev t @ c # rev pre) = rev t"
    using assms by (auto simp: takeWhile_tail)
  then show ?thesis
    by (simp add: lastIndexOf_def)
qed

lemma slice_at_length: "slice (pre @ s) (int (length pre)) = s"
  by (simp add: slice_def)

lemma extractExtension_no_dot: "CHR ''.'' \<notin> set s \<Longrightarrow> extractExtension s = []"
  by (simp add: extractExtension_def lastIndexOf_absent)

lemma extractExtension_trailing_dot: "extractExtension (pre @ ''.'') = []"
  using lastIndexOf_last_occurrence [of "CHR ''.''" "[]" pre]
  by (simp add: extractExtension_def)

lemma extractExtension_last_dot:
  assumes "CHR ''.'' \<notin> set t" and "t \<noteq> []"
  shows "extractExtension (pre @ CHR ''.'' # t) = toLowerCase (CHR ''.'' # t)"
proof -
  have "lastIndexOf (pre @ CHR ''.'' # t) (CHR ''.'') = int (length pre)"
    using assms(1) by (rule lastIndexOf_last_occurrence)
  moreover have "int (length pre) \<noteq> int (length (pre @ CHR ''.'' # t)) - 1"
    using assms(2) by simp
  ultimately show ?thesis
    using slice_at_length [of pre "CHR ''.'' # t"]
    by (simp add: extractExtension_def Let_def)
qed

lemma afterLastDot_no_dot: "CHR ''.'' \<notin> set s \<Longrightarrow> afterLastDot s = None"
  by (induction s) auto

lemma afterLastDot_last_dot:
  "CHR ''.'' \<notin> set t \<Longrightarrow> afterLastDot (pre @ CHR ''.'' # t) = Some t"
  by (induction pre) (auto simp: afterLastDot_no_dot)

lemma toLowerCase_Nil_iff [simp]: "toLowerCase s = [] \<longleftrightarrow> s = []"
  by (simp add: toLowerCase_def)

lemma spec_ownExtension_extractExtension:
  "spec_ownExtension s = (if extractExtension s = [] then None else Some (extractExtension s))"
proof (cases "CHR ''.'' \<in> set s")
  case False
  then show ?thesis
    by (simp add: spec_ownExtension_def afterLastDot_no_dot extractExtension_no_dot)
next
  case True
  then obtain pre t where s: "s = pre @ CHR ''.'' # t" and t: "CHR ''.'' \<notin> set t"
    using split_list_last [of "CHR ''.''" s] by blast
  show ?thesis
  proof (cases "t = []")
    case True
    with s show ?thesis
      using extractExtension_trailing_dot [of pre] afterLastDot_last_dot [of "[]" pre]
      by (simp add: spec_ownExtension_def)
  next
    case False
    with s t show ?thesis
      using extractExtension_last_dot [of t pre] afterLastDot_last_dot [of t pre]
      by (simp add: spec_ownExtension_def)
  qed
qed

lemma extractExtension_starts_with_dot:
  "extractExtension s \<noteq> [] \<Longrightarrow> hd (extractExtension s) = CHR ''.''"
proof (cases "CHR ''.'' \<in> set s")
  case False
  assume "extractExtension s \<noteq> []"
  with False show ?thesis by (simp add: extractExtension_no_dot)
next
  case True
  assume ne: "extractExtension s \<noteq> []"
  from True obtain pre t where s: "s = pre @ CHR ''.'' # t" and t: "CHR ''.'' \<notin> set t"
    using split_list_last [of "CHR ''.''" s] by blast
  have "t \<noteq> []"
    using ne s extractExtension_trailing_dot [of pre] by auto
  with s t have "extractExtension s = toLowerCase (CHR ''.'' # t)"
    using extractExtension_last_dot [of t pre] by simp
  then show ?thesis
    by (simp add: toLowerCase_def toLowerChar_def)
qed

lemma dotted_not_inherited: "k \<noteq> [] \<Longrightarrow> hd k = CHR ''.'' \<Longrightarrow> k \<notin> set Object_prototype_keys"
  by (auto simp: Object_prototype_keys_def)

lemma js_in_own: "k \<notin> set Object_prototype_keys \<Longrightarrow> js_in k table \<longleftrightarrow> map_of table k \<noteq> None"
  by (simp add: js_in_def map_of_eq_None_iff)

lemma js_get_own:
  "k \<notin> set Object_prototype_keys \<Longrightarrow>
   js_get table k = (case map_of table k of Some v \<Rightarrow> Value v | None \<Rightarrow> Undefined)"
  by (simp add: js_get_def)

lemma resolveExtension_in_order:
  assumes "normalize_trimmed ct \<notin> set Object_prototype_keys"
  shows "resolveExtension ct fn = Value (spec_resolveExtension ct fn)"
proof -
  have name: "(case fn of None \<Rightarrow> None | Some name \<Rightarrow> spec_ownExtension name) =
        (case fn of None \<Rightarrow> None
         | Some name \<Rightarrow>
             if name \<noteq> [] then
               (let ext = extractExtension name in if ext \<noteq> [] then Some ext else None)
             else None)"
    by (auto simp: spec_ownExtension_extractExtension extractExtension_no_dot split: option.splits)
  show ?thesis
    unfolding resolveExtension_def spec_resolveExtension_def name
    using assms
    by (auto simp: normalize_trimmed_def js_in_own js_get_own Let_def split: option.splits)
qed

subsection \<open>resolveExtension\<close>

text \<open>
  Claim C7. For every content type and optional file name, \<^verbatim>\<open>resolveExtension\<close> is
  to return the name's own extension when the name is supplied and has one, else the
  content-type table's extension for the normalized content type, else \<open>.bin\<close>.
  The content type \<open>constructor\<close> with no file name has no entry in the table, so the
  claim asks for \<open>.bin\<close>; the source tests \<^verbatim>\<open>mimeType in MIME_TO_EXTENSION\<close>, which
  holds for the inherited property \<^verbatim>\<open>constructor\<close>, and returns that member of
  \<^verbatim>\<open>Object.prototype\<close> instead of a string. (By \<open>resolveExtension_in_order\<close> above
  the source agrees with the claim on every content type whose normalized form is not a
  property name of \<^verbatim>\<open>Object.prototype\<close>.)
\<close>

theorem resolveExtension_constructor_is_inherited:
  "resolveExtension ''constructor'' None = Inherited ''constructor'' \<and>
   spec_resolveExtension ''constructor'' None = ''.bin''"
  by code_simp

subsection \<open>resolveFileCategory\<close>

text \<open>
  Claim C8, as amended. For every content type whose normalized form is not a property
  name of \<^verbatim>\<open>Object.prototype\<close>, and every optional file name,
  \<^verbatim>\<open>resolveFileCategory\<close> returns a value of the seven-valued enumeration, computed
  in the order: prefix \<open>image/\<close>, \<open>audio/\<close> or \<open>video/\<close> of the normalized content
  type; else the content-type table; else, if a file name is supplied, its lower-cased
  trailing extension in the extension table; else \<open>other\<close>. The normalization
  truncates the content type at the first \<open>;\<close>, trims white space at both ends, and
  lower-cases.
\<close>

theorem resolveFileCategory_in_order:
  assumes "normalize_trimmed ct \<notin> set Object_prototype_keys"
  shows "resolveFileCategory ct fn = Value (spec_resolveFileCategory normalize_trimmed ct fn)"
proof -
  have ext: "js_in (extractExtension name) CATEGORY_BY_EXTENSION \<longleftrightarrow>
               map_of CATEGORY_BY_EXTENSION (extractExtension name) \<noteq> None"
       "js_get CATEGORY_BY_EXTENSION (extractExtension name) =
          (case map_of CATEGORY_BY_EXTENSION (extractExtension name) of
             Some v \<Rightarrow> Value v | None \<Rightarrow> Undefined)"
    if "extractExtension name \<noteq> []" for name
    using that extractExtension_starts_with_dot [of name]
    by (simp_all add: js_in_own js_get_own dotted_not_inherited)
  show ?thesis
    unfolding resolveFileCategory_def spec_resolveFileCategory_def
    using assms
    by (auto simp: normalize_trimmed_def js_in_own js_get_own ext Let_def
          spec_ownExtension_extractExtension extractExtension_no_dot split: option.splits)
qed

theorem resolveFileCategory_in_order_witness:
  "normalize_trimmed ''application/octet-stream'' \<notin> set Object_prototype_keys \<and>
   resolveFileCategory ''application/octet-stream'' (Some ''song.mp3'') =
     Value (spec_resolveFileCategory normalize_trimmed ''application/octet-stream''
              (Some ''song.mp3'')) \<and>
   spec_resolveFileCategory normalize_trimmed ''application/octet-stream'' (Some ''song.mp3'')
     = CAudio"
proof -
  have h: "normalize_trimmed ''application/octet-stream'' \<notin> set Object_prototype_keys"
    by code_simp
  have v: "spec_resolveFileCategory normalize_trimmed ''application/octet-stream''
             (Some ''song.mp3'') = CAudio"
    by code_simp
  from resolveFileCategory_in_order [OF h, of "Some ''song.mp3''"] h v
  show ?thesis by simp
qed

text \<open>
  The claim as stated, with a normalization that only truncates and lower-cases, fails
  on a content type with a space before the parameter separator: the source trims the
  truncated string and finds \<open>text/plain\<close> in the table, while the untrimmed string
  \<open>text/plain \<close> is in no table.
\<close>

theorem resolveFileCategory_trims_before_lookup:
  "resolveFileCategory ''text/plain ; charset=utf-8'' None = Value CDocument \<and>
   spec_resolveFileCategory spec_normalize ''text/plain ; charset=utf-8'' None = COther"
  by code_simp

subsection \<open>File names that start with their only dot\<close>

text \<open>
  Claim C10, as amended. For every file name that consists of a \<open>.\<close> followed by at
  least one character and contains no later \<open>.\<close> (such as \<open>.gitignore\<close>), the
  last-dot position is 0 and the whole lower-cased name is the extension:
  \<^verbatim>\<open>resolveExtension\<close> returns the whole lower-cased name for every content type,
  and \<^verbatim>\<open>resolveFileCategory\<close>, when the normalized content type has none of the
  three prefixes and is not found by \<^verbatim>\<open>in\<close> in the content-type table, returns the
  category that the extension table gives for the whole lower-cased name, or
  \<open>other\<close> when it has none.
\<close>

theorem leading_dot_name_is_its_extension:
  assumes "CHR ''.'' \<notin> set t" and "t \<noteq> []"
  shows "extractExtension (CHR ''.'' # t) = toLowerCase (CHR ''.'' # t) \<and>
         resolveExtension ct (Some (CHR ''.'' # t)) = Value (toLowerCase (CHR ''.'' # t)) \<and>
         (\<not> prefix ''image/'' (normalize_trimmed ct) \<and>
          \<not> prefix ''audio/'' (normalize_trimmed ct) \<and>
          \<not> prefix ''video/'' (normalize_trimmed ct) \<and>
          \<not> js_in (normalize_trimmed ct) CATEGORY_BY_MIME \<longrightarrow>
          resolveFileCategory ct (Some (CHR ''.'' # t)) =
            Value (case map_of CATEGORY_BY_EXTENSION (toLowerCase (CHR ''.'' # t)) of
                     Some c \<Rightarrow> c | None \<Rightarrow> COther))"
proof -
  let ?name = "CHR ''.'' # t"
  have ext: "extractExtension ?name = toLowerCase ?name"
    using extractExtension_last_dot [OF assms, of "[]"] by simp
  have ne: "toLowerCase ?name \<noteq> []"
    by simp
  have dot: "hd (toLowerCase ?name) = CHR ''.''"
    using extractExtension_starts_with_dot [of ?name] ext ne by simp
  have own: "toLowerCase ?name \<notin> set Object_prototype_keys"
    using ne dot by (rule dotted_not_inherited)
  have "resolveExtension ct (Some ?name) = Value (toLowerCase ?name)"
    using ext ne by (simp add: resolveExtension_def Let_def)
  moreover have "resolveFileCategory ct (Some ?name) =
      Value (case map_of CATEGORY_BY_EXTENSION (toLowerCase ?name) of
               Some c \<Rightarrow> c | None \<Rightarrow> COther)"
    if "\<not> prefix ''image/'' (normalize_trimmed ct)"
      and "\<not> prefix ''audio/'' (normalize_trimmed ct)"
      and "\<not> prefix ''video/'' (normalize_trimmed ct)"
      and "\<not> js_in (normalize_trimmed ct) CATEGORY_BY_MIME"
    using that ext ne js_in_own [OF own, of CATEGORY_BY_EXTENSION]
      js_get_own [OF own, of CATEGORY_BY_EXTENSION]
    by (auto simp: resolveFileCategory_def normalize_trimmed_def Let_def split: option.splits)
  ultimately show ?thesis
    using ext by blast
qed

theorem leading_dot_name_is_its_extension_witness:
  "CHR ''.'' \<notin> set ''gitignore'' \<and> ''gitignore'' \<noteq> [] \<and>
   extractExtension ''.gitignore'' = ''.gitignore'' \<and>
   resolveExtension ''image/png'' (Some ''.gitignore'') = Value ''.gitignore'' \<and>
   resolveFileCategory ''application/octet-stream'' (Some ''.zip'') = Value CArchive"
proof -
  have g: "CHR ''.'' \<notin> set ''gitignore''" "''gitignore'' \<noteq> []"
    by simp_all
  have z: "CHR ''.'' \<notin> set ''zip''" "''zip'' \<noteq> []"
    by simp_all
  have lg: "toLowerCase ''.gitignore'' = ''.gitignore''"
    by code_simp
  have lz: "(case map_of CATEGORY_BY_EXTENSION (toLowerCase ''.zip'') of
               Some c \<Rightarrow> c | None \<Rightarrow> COther) = CArchive"
    by code_simp
  have unknown:
    "\<not> prefix ''image/'' (normalize_trimmed ''application/octet-stream'') \<and>
     \<not> prefix ''audio/'' (normalize_trimmed ''application/octet-stream'') \<and>
     \<not> prefix ''video/'' (normalize_trimmed ''application/octet-stream'') \<and>
     \<not> js_in (normalize_trimmed ''application/octet-stream'') CATEGORY_BY_MIME"
    by code_simp
  from leading_dot_name_is_its_extension [OF g, of "''image/png''"]
    leading_dot_name_is_its_extension [OF z, of "''application/octet-stream''"]
    g lg lz unknown
  show ?thesis by simp
qed

text \<open>
  The name \<open>.\<close> starts with a dot and has no later dot, yet its dot is also the last
  character, so the guard \<^verbatim>\<open>lastDot === fileName.length - 1\<close> gives it no
  extension and the content type decides.
\<close>

theorem lone_dot_has_no_extension:
  "resolveExtension ''image/png'' (Some ''.'') = Value ''.png'' \<and>
   toLowerCase ''.'' = ''.''"
  by code_simp

section \<open>Properties of assignMediaFieldsToContext\<close>

subsection \<open>Store lemmas\<close>

lemma length_setProp [simp]: "length (setProp h r k v) = length h"
  by (simp add: setProp_def)

lemma setProp_same [simp]: "r < length h \<Longrightarrow> setProp h r k v ! r = (h ! r)(k \<mapsto> v)"
  by (simp add: setProp_def)

lemma setProp_other [simp]: "r' \<noteq> r \<Longrightarrow> setProp h r k v ! r' = h ! r'"
  by (simp add: setProp_def)

lemma length_assignBody [simp]: "length (assignBody h r mb) = length h"
  by (simp add: assignBody_def Let_def)

lemma assignBody_other [simp]: "r' \<noteq> r \<Longrightarrow> assignBody h r mb ! r' = h ! r'"
  by (simp add: assignBody_def Let_def)

lemma assignBody_same:
  "r < length h \<Longrightarrow>
   assignBody h r mb ! r =
     (if truthy mb
      then (h ! r)(''Body'' \<mapsto> Str (the mb), ''RawBody'' \<mapsto> Str (the mb),
                   ''CommandBody'' \<mapsto> Str (the mb))
      else h ! r)"
  by (simp add: assignBody_def Let_def)

lemma length_assignFileFields [simp]: "length (assignFileFields h r info) = length h"
  by (simp add: assignFileFields_def Let_def split: option.splits)

lemma assignFileFields_other [simp]: "r' \<noteq> r \<Longrightarrow> assignFileFields h r info ! r' = h ! r'"
  by (simp add: assignFileFields_def Let_def split: option.splits)

lemma length_assignTranscript [simp]: "length (assignTranscript h r info) = length h"
  by (simp add: assignTranscript_def split: option.splits)

lemma assignTranscript_other [simp]: "r' \<noteq> r \<Longrightarrow> assignTranscript h r info ! r' = h ! r'"
  by (simp add: assignTranscript_def split: option.splits)


lemma take_setProp [simp]: "n \<le> r \<Longrightarrow> take n (setProp h r k v) = take n h"
  by (simp add: setProp_def)

lemma take_assignBody [simp]: "n \<le> r \<Longrightarrow> take n (assignBody h r mb) = take n h"
  by (simp add: assignBody_def Let_def)

lemma take_assignFileFields [simp]: "n \<le> r \<Longrightarrow> take n (assignFileFields h r info) = take n h"
  by (simp add: assignFileFields_def Let_def split: option.splits)

lemma take_assignTranscript [simp]: "n \<le> r \<Longrightarrow> take n (assignTranscript h r info) = take n h"
  by (simp add: assignTranscript_def split: option.splits)

lemma assignFileFields_same:
  "r < length h \<Longrightarrow>
   assignFileFields h r info ! r =
     (case info of
        None \<Rightarrow> h ! r
      | Some i \<Rightarrow>
          if msgType i = File then
            (let o1 = (if truthy (fileName i) then (h ! r)(''FileName'' \<mapsto> Str (the (fileName i))) else h ! r)
             in case fileSize i of None \<Rightarrow> o1 | Some n \<Rightarrow> o1(''FileSize'' \<mapsto> Num n))
          else h ! r)"
  by (simp add: assignFileFields_def Let_def split: option.splits)

lemma assignTranscript_same:
  "r < length h \<Longrightarrow>
   assignTranscript h r info ! r =
     (case info of
        None \<Rightarrow> h ! r
      | Some i \<Rightarrow>
          if msgType i = Audio \<and> truthy (recognition i)
          then (h ! r)(''Transcript'' \<mapsto> Str (the (recognition i)))
          else h ! r)"
  by (simp add: assignTranscript_def split: option.splits)

lemma assign_fst: "fst (assignMediaFieldsToContext h base dm info imgs mb) = length h"
  by (simp add: assignMediaFieldsToContext_def spread_def Let_def)

lemma assign_length:
  "length (snd (assignMediaFieldsToContext h base dm info imgs mb)) = Suc (length h)"
  by (simp add: assignMediaFieldsToContext_def spread_def Let_def split: option.splits)

lemma assign_take:
  "take (length h) (snd (assignMediaFieldsToContext h base dm info imgs mb)) = h"
  by (simp add: assignMediaFieldsToContext_def spread_def Let_def split: option.splits)

lemmas assign_unfold =
  resultCtx_def assignMediaFieldsToContext_def spread_def Let_def
  assignBody_same assignFileFields_same assignTranscript_same

subsection \<open>The single-media branch\<close>

text \<open>
  Claim C5. Whenever \<^verbatim>\<open>downloadedMedia\<close> is present, the returned context has
  \<^verbatim>\<open>MediaPath\<close> equal to the downloaded file's local path and
  \<^verbatim>\<open>MediaType\<close> equal to its content type, whatever the other arguments are.
  When \<^verbatim>\<open>downloadedMedia\<close> is absent, neither property is written: the
  returned context holds for both exactly what the base context held.
\<close>

theorem single_media_sets_MediaPath_and_MediaType:
  "resultCtx h base (Some dm) info imgs mb ''MediaPath'' = Some (Str (path dm)) \<and>
   resultCtx h base (Some dm) info imgs mb ''MediaType'' = Some (Str (contentType dm)) \<and>
   resultCtx h base None info imgs mb ''MediaPath'' = (h ! base) ''MediaPath'' \<and>
   resultCtx h base None info imgs mb ''MediaType'' = (h ! base) ''MediaType''"
  by (simp add: assign_unfold split: option.splits)

subsection \<open>MediaUrl and MediaUrls\<close>

text \<open>
  No branch writes \<^verbatim>\<open>MediaUrl\<close> or \<^verbatim>\<open>MediaUrls\<close>: the returned context
  holds for each of the two exactly what the base context held.
\<close>

lemma MediaUrl_frame:
  "resultCtx h base dm info imgs mb ''MediaUrl'' = (h ! base) ''MediaUrl'' \<and>
   resultCtx h base dm info imgs mb ''MediaUrls'' = (h ! base) ''MediaUrls''"
  by (simp add: assign_unfold split: option.splits)

text \<open>
  Claim C1. A base context is an \<^verbatim>\<open>InboundContext\<close>, and by the invariant of that
  record neither \<^verbatim>\<open>MediaUrl\<close> nor \<^verbatim>\<open>MediaUrls\<close> is populated in it. For every
  such base context and every combination of \<^verbatim>\<open>downloadedMedia\<close>,
  \<^verbatim>\<open>extractedFileInfo\<close>, \<^verbatim>\<open>downloadedRichTextImages\<close> and
  \<^verbatim>\<open>mediaBody\<close>, the returned record has no \<^verbatim>\<open>MediaUrl\<close> and no
  \<^verbatim>\<open>MediaUrls\<close> property: both are absent.
\<close>

theorem MediaUrl_fields_stay_absent:
  assumes "(h ! base) ''MediaUrl'' = None" and "(h ! base) ''MediaUrls'' = None"
  shows "resultCtx h base dm info imgs mb ''MediaUrl'' = None \<and>
         resultCtx h base dm info imgs mb ''MediaUrls'' = None"
  using assms MediaUrl_frame [of h base dm info imgs mb] by simp

theorem MediaUrl_fields_stay_absent_witness:
  "([[''Body'' \<mapsto> Str ''hi'']] ! 0) ''MediaUrl'' = None \<and>
   ([[''Body'' \<mapsto> Str ''hi'']] ! 0) ''MediaUrls'' = None \<and>
   resultCtx [[''Body'' \<mapsto> Str ''hi'']] 0
     (Some \<lparr>path = ''/tmp/a.pdf'', contentType = ''application/pdf'', size_df = 10,
            fileName_df = None\<rparr>)
     (Some \<lparr>downloadCode = ''code-1'', msgType = File, fileName = Some ''a.pdf'',
            fileSize = Some 10, duration = None, recognition = None\<rparr>)
     [\<lparr>path = ''/tmp/b.png'', contentType = ''image/png'', size_df = 3, fileName_df = None\<rparr>]
     (Some ''[file]'') ''MediaUrl'' = None \<and>
   resultCtx [[''Body'' \<mapsto> Str ''hi'']] 0
     (Some \<lparr>path = ''/tmp/a.pdf'', contentType = ''application/pdf'', size_df = 10,
            fileName_df = None\<rparr>)
     (Some \<lparr>downloadCode = ''code-1'', msgType = File, fileName = Some ''a.pdf'',
            fileSize = Some 10, duration = None, recognition = None\<rparr>)
     [\<lparr>path = ''/tmp/b.png'', contentType = ''image/png'', size_df = 3, fileName_df = None\<rparr>]
     (Some ''[file]'') ''MediaUrls'' = None"
proof -
  have absent: "([[''Body'' \<mapsto> Str ''hi'']] ! 0) ''MediaUrl'' = None"
    "([[''Body'' \<mapsto> Str ''hi'']] ! 0) ''MediaUrls'' = None"
    by simp_all
  from MediaUrl_fields_stay_absent [OF absent] absent show ?thesis
    by simp
qed

subsection \<open>The base context is left as it was\<close>

text \<open>
  Claim C2. The call has no effect on its first argument: for every store, every valid
  reference \<open>base\<close> into it and every combination of the other four arguments, the
  returned reference is a fresh cell, distinct from \<open>base\<close>, and after the call the
  object at \<open>base\<close> is the object that was there before, as is every other object that
  the store held; the store has grown by the one new record.
\<close>

theorem base_is_not_mutated:
  assumes "base < length h"
  shows "case assignMediaFieldsToContext h base dm info imgs mb of
           (r, h') \<Rightarrow>
             r \<noteq> base \<and> r = length h \<and> length h' = Suc (length h) \<and>
             h' ! base = h ! base \<and> take (length h) h' = h"
proof -
  obtain r h' where call: "assignMediaFieldsToContext h base dm info imgs mb = (r, h')"
    by (cases "assignMediaFieldsToContext h base dm info imgs mb")
  have r: "r = length h"
    using assign_fst [of h base dm info imgs mb] call by simp
  have len: "length h' = Suc (length h)"
    using assign_length [of h base dm info imgs mb] call by simp
  have old: "take (length h) h' = h"
    using assign_take [of h base dm info imgs mb] call by simp
  have "h' ! base = take (length h) h' ! base"
    using assms by simp
  with old have "h' ! base = h ! base"
    by simp
  with r len old assms show ?thesis
    by (simp add: call)
qed

theorem base_is_not_mutated_witness:
  "(0::nat) < length [[''Body'' \<mapsto> Str ''hi'']] \<and>
   (case assignMediaFieldsToContext [[''Body'' \<mapsto> Str ''hi'']] 0
           (Some \<lparr>path = ''/tmp/a.png'', contentType = ''image/png'', size_df = 3,
                  fileName_df = None\<rparr>) None [] (Some ''[picture]'') of
      (r, h') \<Rightarrow>
        r \<noteq> 0 \<and> r = length [[''Body'' \<mapsto> Str ''hi'']] \<and>
        length h' = Suc (length [[''Body'' \<mapsto> Str ''hi'']]) \<and>
        h' ! 0 = [[''Body'' \<mapsto> Str ''hi'']] ! 0 \<and>
        take (length [[''Body'' \<mapsto> Str ''hi'']]) h' = [[''Body'' \<mapsto> Str ''hi'']])"
  using base_is_not_mutated [of 0 "[[''Body'' \<mapsto> Str ''hi'']]"
      "Some \<lparr>path = ''/tmp/a.png'', contentType = ''image/png'', size_df = 3,
              fileName_df = None\<rparr>" None "[]" "Some ''[picture]''"]
  by simp

subsection \<open>File name, file size and transcript\<close>

text \<open>
  Claim C3, as amended. The rules for \<^verbatim>\<open>FileName\<close>, \<^verbatim>\<open>FileSize\<close> and
  \<^verbatim>\<open>Transcript\<close> sit inside the single-media branch, so they are gated on
  \<^verbatim>\<open>downloadedMedia\<close> being present as well as on \<^verbatim>\<open>extractedFileInfo\<close>. When
  \<^verbatim>\<open>downloadedMedia\<close> is present and the descriptor has \<^verbatim>\<open>msgType\<close> "file",
  \<^verbatim>\<open>FileName\<close> is set to the descriptor's file name exactly when that name is a
  non-empty string, and \<^verbatim>\<open>FileSize\<close> to its file size exactly when a size is
  present, each independently of the other and of the remaining arguments; when
  \<^verbatim>\<open>downloadedMedia\<close> is present and the descriptor has \<^verbatim>\<open>msgType\<close> "audio"
  with a non-empty recognition transcript, \<^verbatim>\<open>Transcript\<close> is set to it. In every
  other case (no downloaded media, no descriptor, another message type, an absent or
  empty value) the property is not written and keeps what the base context held, with no
  placeholder.
\<close>

theorem file_and_audio_fields_need_downloadedMedia:
  "resultCtx h base dm (Some i) imgs mb ''FileName'' =
     (if dm \<noteq> None \<and> msgType i = File \<and> truthy (fileName i)
      then Some (Str (the (fileName i))) else (h ! base) ''FileName'') \<and>
   resultCtx h base dm (Some i) imgs mb ''FileSize'' =
     (if dm \<noteq> None \<and> msgType i = File \<and> fileSize i \<noteq> None
      then Some (Num (the (fileSize i))) else (h ! base) ''FileSize'') \<and>
   resultCtx h base dm (Some i) imgs mb ''Transcript'' =
     (if dm \<noteq> None \<and> msgType i = Audio \<and> truthy (recognition i)
      then Some (Str (the (recognition i))) else (h ! base) ''Transcript'') \<and>
   resultCtx h base dm None imgs mb ''FileName'' = (h ! base) ''FileName'' \<and>
   resultCtx h base dm None imgs mb ''FileSize'' = (h ! base) ''FileSize'' \<and>
   resultCtx h base dm None imgs mb ''Transcript'' = (h ! base) ''Transcript''"
  by (auto simp: assign_unfold split: option.splits)

text \<open>
  A file descriptor with a name and a size, passed without downloaded media: neither
  \<^verbatim>\<open>FileName\<close> nor \<^verbatim>\<open>FileSize\<close> is set.
\<close>

theorem file_fields_without_downloadedMedia:
  "resultCtx [Map.empty] 0 None
     (Some \<lparr>downloadCode = ''code-1'', msgType = File, fileName = Some ''a.pdf'',
            fileSize = Some 10, duration = None, recognition = None\<rparr>)
     [] None ''FileName'' = None \<and>
   resultCtx [Map.empty] 0 None
     (Some \<lparr>downloadCode = ''code-1'', msgType = File, fileName = Some ''a.pdf'',
            fileSize = Some 10, duration = None, recognition = None\<rparr>)
     [] None ''FileSize'' = None"
  by (simp add: assign_unfold)

subsection \<open>Body, RawBody and CommandBody\<close>

text \<open>
  Claim C4. When \<^verbatim>\<open>mediaBody\<close> is a non-empty string and at least one of the two
  media branches fires (\<^verbatim>\<open>downloadedMedia\<close> present, or
  \<^verbatim>\<open>downloadedRichTextImages\<close> non-empty), the result has \<^verbatim>\<open>Body\<close>,
  \<^verbatim>\<open>RawBody\<close> and \<^verbatim>\<open>CommandBody\<close> all equal to \<^verbatim>\<open>mediaBody\<close>; in
  every other case none of the three is overwritten. The condition is the same for the
  three properties, so no input overwrites only some of them.
\<close>

theorem body_fields_move_in_lock_step:
  "resultCtx h base dm info imgs mb ''Body'' =
     (if truthy mb \<and> (dm \<noteq> None \<or> imgs \<noteq> [])
      then Some (Str (the mb)) else (h ! base) ''Body'') \<and>
   resultCtx h base dm info imgs mb ''RawBody'' =
     (if truthy mb \<and> (dm \<noteq> None \<or> imgs \<noteq> [])
      then Some (Str (the mb)) else (h ! base) ''RawBody'') \<and>
   resultCtx h base dm info imgs mb ''CommandBody'' =
     (if truthy mb \<and> (dm \<noteq> None \<or> imgs \<noteq> [])
      then Some (Str (the mb)) else (h ! base) ''CommandBody'')"
  by (auto simp: assign_unfold split: option.splits)

theorem body_fields_move_in_lock_step_witness:
  "resultCtx [[''Body'' \<mapsto> Str ''hi'', ''RawBody'' \<mapsto> Str ''hi'']] 0 None None
     [\<lparr>path = ''/tmp/a.png'', contentType = ''image/png'', size_df = 3, fileName_df = None\<rparr>]
     (Some ''[picture]'') ''Body'' = Some (Str ''[picture]'') \<and>
   resultCtx [[''Body'' \<mapsto> Str ''hi'', ''RawBody'' \<mapsto> Str ''hi'']] 0 None None
     [\<lparr>path = ''/tmp/a.png'', contentType = ''image/png'', size_df = 3, fileName_df = None\<rparr>]
     (Some ''[picture]'') ''RawBody'' = Some (Str ''[picture]'') \<and>
   resultCtx [[''Body'' \<mapsto> Str ''hi'', ''RawBody'' \<mapsto> Str ''hi'']] 0 None None
     [\<lparr>path = ''/tmp/a.png'', contentType = ''image/png'', size_df = 3, fileName_df = None\<rparr>]
     (Some ''[picture]'') ''CommandBody'' = Some (Str ''[picture]'') \<and>
   resultCtx [[''Body'' \<mapsto> Str ''hi'', ''RawBody'' \<mapsto> Str ''hi'']] 0 None None
     [] (Some ''[picture]'') ''Body'' = Some (Str ''hi'') \<and>
   resultCtx [[''Body'' \<mapsto> Str ''hi'', ''RawBody'' \<mapsto> Str ''hi'']] 0 None None
     [] (Some ''[picture]'') ''RawBody'' = Some (Str ''hi'') \<and>
   resultCtx [[''Body'' \<mapsto> Str ''hi'', ''RawBody'' \<mapsto> Str ''hi'']] 0 None None
     [] (Some ''[picture]'') ''CommandBody'' = None"
  using body_fields_move_in_lock_step
      [of "[[''Body'' \<mapsto> Str ''hi'', ''RawBody'' \<mapsto> Str ''hi'']]" 0 None None
        "[\<lparr>path = ''/tmp/a.png'', contentType = ''image/png'', size_df = 3,
            fileName_df = None\<rparr>]" "Some ''[picture]''"]
    body_fields_move_in_lock_step
      [of "[[''Body'' \<mapsto> Str ''hi'', ''RawBody'' \<mapsto> Str ''hi'']]" 0 None None
        "[]" "Some ''[picture]''"]
  by (simp add: truthy_def)

subsection \<open>The rich-text branch\<close>

text \<open>
  Claim C6. For every non-empty list \<^verbatim>\<open>downloadedRichTextImages\<close> of length
  \<open>n\<close>, the result has \<^verbatim>\<open>MediaPaths\<close> set to the list of the \<open>n\<close> files' paths
  and \<^verbatim>\<open>MediaTypes\<close> to the list of their content types, in the order of the
  input: both lists have length \<open>n\<close> and their \<open>i\<close>-th entries come from the
  \<open>i\<close>-th file. For the empty list neither property is written.
\<close>

theorem rich_text_images_set_MediaPaths_and_MediaTypes:
  assumes "imgs \<noteq> []"
  shows "(\<exists>ps ts.
            resultCtx h base dm info imgs mb ''MediaPaths'' = Some (StrArray ps) \<and>
            resultCtx h base dm info imgs mb ''MediaTypes'' = Some (StrArray ts) \<and>
            ps = map path imgs \<and> ts = map contentType imgs \<and>
            length ps = length imgs \<and> length ts = length imgs \<and>
            (\<forall>n < length imgs.
               ps ! n = path (imgs ! n) \<and> ts ! n = contentType (imgs ! n))) \<and>
         resultCtx h base dm info [] mb ''MediaPaths'' = (h ! base) ''MediaPaths'' \<and>
         resultCtx h base dm info [] mb ''MediaTypes'' = (h ! base) ''MediaTypes''"
proof -
  have "resultCtx h base dm info imgs mb ''MediaPaths'' = Some (StrArray (map path imgs))"
    using assms by (simp add: assign_unfold split: option.splits)
  moreover
  have "resultCtx h base dm info imgs mb ''MediaTypes'' =
          Some (StrArray (map contentType imgs))"
    using assms by (simp add: assign_unfold split: option.splits)
  moreover
  have "resultCtx h base dm info [] mb ''MediaPaths'' = (h ! base) ''MediaPaths''"
    by (simp add: assign_unfold split: option.splits)
  moreover
  have "resultCtx h base dm info [] mb ''MediaTypes'' = (h ! base) ''MediaTypes''"
    by (simp add: assign_unfold split: option.splits)
  ultimately show ?thesis
    by simp
qed

theorem rich_text_images_set_MediaPaths_and_MediaTypes_witness:
  "[\<lparr>path = ''/tmp/a.png'', contentType = ''image/png'', size_df = 3, fileName_df = None\<rparr>,
    \<lparr>path = ''/tmp/b.jpg'', contentType = ''image/jpeg'', size_df = 5, fileName_df = None\<rparr>]
     \<noteq> [] \<and>
   resultCtx [[''Body'' \<mapsto> Str ''hi'']] 0 None None
     [\<lparr>path = ''/tmp/a.png'', contentType = ''image/png'', size_df = 3, fileName_df = None\<rparr>,
      \<lparr>path = ''/tmp/b.jpg'', contentType = ''image/jpeg'', size_df = 5, fileName_df = None\<rparr>]
     None ''MediaPaths'' = Some (StrArray [''/tmp/a.png'', ''/tmp/b.jpg'']) \<and>
   resultCtx [[''Body'' \<mapsto> Str ''hi'']] 0 None None
     [\<lparr>path = ''/tmp/a.png'', contentType = ''image/png'', size_df = 3, fileName_df = None\<rparr>,
      \<lparr>path = ''/tmp/b.jpg'', contentType = ''image/jpeg'', size_df = 5, fileName_df = None\<rparr>]
     None ''MediaTypes'' = Some (StrArray [''image/png'', ''image/jpeg'']) \<and>
   resultCtx [[''Body'' \<mapsto> Str ''hi'']] 0 None None [] None ''MediaPaths'' = None"
  using rich_text_images_set_MediaPaths_and_MediaTypes
      [of "[\<lparr>path = ''/tmp/a.png'', contentType = ''image/png'', size_df = 3,
              fileName_df = None\<rparr>,
            \<lparr>path = ''/tmp/b.jpg'', contentType = ''image/jpeg'', size_df = 5,
              fileName_df = None\<rparr>]"
        "[[''Body'' \<mapsto> Str ''hi'']]" 0 None None None]
  by simp

end
